theory Spec2Isabelle
  imports Main
begin

section \<open>The insights client: data model\<close>

text \<open>
  The embedding follows \<^verbatim>\<open>pkg/insights/insightsclient/insightsclient.go\<close>.
  Go strings and byte slices are byte sequences, modelled as \<^typ>\<open>string\<close>
  (a list of 8-bit characters), so \<^term>\<open>length\<close> counts bytes as Go's
  \<^verbatim>\<open>len\<close> does. The \<^verbatim>\<open>int64\<close> byte ceiling and the
  \<^verbatim>\<open>int\<close> status code are modelled as \<^typ>\<open>int\<close>: the code only
  compares them, prints them, and subtracts a read count from the ceiling, so no
  operation on them can overflow.

  A call is modelled by explicit state passing. What the collaborators answer (the
  identity source, the authorizer, the HTTP transport) is an input of the call; the
  counters, the number of identity queries and the response object are state that
  the call returns changed. Logging through \<^verbatim>\<open>klog\<close> and the rebuilding of
  \<^verbatim>\<open>c.client.Transport\<close> before each exchange change none of this and are left
  out. The upload encoder runs concurrently with the exchange in the source; it is
  modelled on its own, as the function from the Source to the request body that it
  writes.
\<close>

subsection \<open>Errors\<close>

text \<open>
  Go's \<^verbatim>\<open>error\<close> interface, as the values this package builds or receives:
  the sentinel \<^verbatim>\<open>ErrWaitingForVersion\<close>; an error made by \<^verbatim>\<open>fmt.Errorf\<close>,
  carrying its rendered message; \<^verbatim>\<open>authorizer.Error{Err: e}\<close>;
  \<^verbatim>\<open>HttpError{Err: e, StatusCode: n}\<close>; an API status error whose reason is
  NotFound (the only property of the identity source's errors that the code inspects);
  \<^verbatim>\<open>io.ErrClosedPipe\<close>; \<^verbatim>\<open>io.EOF\<close>; and any other error of a collaborator,
  known by its text.
\<close>

datatype error =
    ErrWaitingForVersion
  | Errorf string
  | AuthorizerError error
  | HttpError error int
  | ApiNotFound string
  | ErrClosedPipe
  | EOF
  | Foreign string

text \<open>\<^verbatim>\<open>func IsHttpError(err error) bool\<close>: a type switch on \<^verbatim>\<open>HttpError\<close>.\<close>

fun IsHttpError :: "error \<Rightarrow> bool" where
  "IsHttpError (HttpError e n) = True"
| "IsHttpError _ = False"

text \<open>The type test \<^verbatim>\<open>authorizer.Error\<close> that callers apply to a returned error.\<close>

fun IsAuthorizationError :: "error \<Rightarrow> bool" where
  "IsAuthorizationError (AuthorizerError e) = True"
| "IsAuthorizationError _ = False"

text \<open>
  \<^verbatim>\<open>apierrors.IsNotFound(err)\<close> on an \<^verbatim>\<open>error\<close> that may be nil.
\<close>

fun IsNotFound :: "error option \<Rightarrow> bool" where
  "IsNotFound (Some (ApiNotFound m)) = True"
| "IsNotFound _ = False"

text \<open>
  The \<^verbatim>\<open>Error()\<close> method. \<^verbatim>\<open>HttpError.Error\<close> returns the text of the wrapped
  error (lines 73-75); \<^verbatim>\<open>authorizer.Error\<close> belongs to package
  \<^verbatim>\<open>authorizer\<close>, and its text is taken to be that of the error it wraps.
\<close>

fun Error :: "error \<Rightarrow> string" where
  "Error ErrWaitingForVersion = ''waiting for the cluster version to be loaded''"
| "Error (Errorf m) = m"
| "Error (AuthorizerError e) = Error e"
| "Error (HttpError e n) = Error e"
| "Error (ApiNotFound m) = m"
| "Error ErrClosedPipe = ''io: read/write on closed pipe''"
| "Error EOF = ''EOF''"
| "Error (Foreign m) = m"

subsection \<open>Client\<close>

text \<open>\<^verbatim>\<open>configv1.ClusterVersion\<close>, of which the code reads \<^verbatim>\<open>Spec.ClusterID\<close>.\<close>

record ClusterVersion =
  ClusterID :: string

text \<open>
  \<^verbatim>\<open>type Client struct\<close>. The fields \<^verbatim>\<open>client\<close>, \<^verbatim>\<open>authorizer\<close> and
  \<^verbatim>\<open>gatherKubeConfig\<close> are handles to collaborators; what those collaborators
  answer is the environment of a call (record \<open>env\<close> below). A nil
  \<^verbatim>\<open>*configv1.ClusterVersion\<close> is \<^term>\<open>None\<close>.
\<close>

record Client =
  maxBytes :: int
  metricsName :: string
  clusterVersion :: "ClusterVersion option"

text \<open>\<^verbatim>\<open>func New(client, maxBytes, metricsName, authorizer, gatherKubeConfig) *Client\<close>\<close>

definition New :: "int \<Rightarrow> string \<Rightarrow> Client" where
  "New maxBytes0 metricsName0 =
     (let mb = (if maxBytes0 = 0 then 10 * 1024 * 1024 else maxBytes0)
      in \<lparr>maxBytes = mb, metricsName = metricsName0, clusterVersion = None\<rparr>)"

subsection \<open>Decimal rendering\<close>

text \<open>
  \<^verbatim>\<open>strconv.Itoa\<close> (and \<^verbatim>\<open>%d\<close>): the decimal digits of an integer, with a
  leading minus sign for a negative one.
\<close>

definition digit :: "nat \<Rightarrow> char" where
  "digit d = ''0123456789'' ! (d mod 10)"

fun utoa :: "nat \<Rightarrow> string" where
  "utoa n = (if n < 10 then [digit n] else utoa (n div 10) @ [digit (n mod 10)])"

declare utoa.simps [simp del]

definition Itoa :: "int \<Rightarrow> string" where
  "Itoa i = (if i < 0 then CHR ''-'' # utoa (nat (- i)) else utoa (nat i))"

subsection \<open>Responses and the collaborators' answers\<close>

text \<open>
  \<^verbatim>\<open>resp.Body\<close>, an \<^verbatim>\<open>io.ReadCloser\<close>: the bytes not yet read, whether a
  read has reached the end of the stream, and whether \<^verbatim>\<open>Close\<close> was called.
\<close>

record body_reader =
  unread :: string
  at_eof :: bool
  closed :: bool

text \<open>
  \<^verbatim>\<open>io.ReadAll(body)\<close> and \<^verbatim>\<open>io.Copy(io.Discard, body)\<close> read until the end of
  the stream; the first returns what it read.
\<close>

definition ReadAll :: "body_reader \<Rightarrow> string \<times> body_reader" where
  "ReadAll b = (unread b, b\<lparr>unread := [], at_eof := True\<rparr>)"

text \<open>
  \<^verbatim>\<open>*http.Response\<close>, as far as the code reads it: the status code, the header
  \<^verbatim>\<open>x-rh-insights-request-id\<close>, \<^verbatim>\<open>resp.Request.URL\<close> as printed by
  \<^verbatim>\<open>%s\<close>, and the body.
\<close>

record response =
  StatusCode :: int
  RequestID :: string
  RequestURL :: string
  Body :: body_reader

text \<open>
  What the collaborators answer during one call: \<^verbatim>\<open>configv1client.NewForConfig\<close>
  (an error or nil), \<^verbatim>\<open>ClusterVersions().Get\<close> (a pointer and an error),
  \<^verbatim>\<open>http.NewRequest\<close>, \<^verbatim>\<open>authorizer.Authorize\<close>, \<^verbatim>\<open>authorizer.Token\<close>,
  \<^verbatim>\<open>c.client.Do\<close> (a transport error or a response), the environment variable
  \<^verbatim>\<open>RELEASE_VERSION\<close>, \<^verbatim>\<open>version.Get()\<close>, and the standard library's
  rendering \<^verbatim>\<open>fmt.Sprintf(endpoint, clusterID)\<close> of the report endpoint template.
\<close>

record env =
  NewForConfig_err :: "error option"
  Get_result :: "ClusterVersion option \<times> error option"
  NewRequest_err :: "error option"
  Authorize_err :: "error option"
  Token_result :: "error + string"
  Do_result :: "error + response"
  RELEASE_VERSION :: string
  GitVersion :: string
  GitCommit :: string
  Sprintf_endpoint :: "string \<Rightarrow> string \<Rightarrow> string"

text \<open>
  The state outside the Client that a call changes: the two process-wide counter
  vectors, keyed by the label values (client, status_code); the number of
  \<^verbatim>\<open>Get\<close> queries sent to the identity source so far; and the
  \<^verbatim>\<open>*http.Response\<close> object of the latest exchange as the call left it.
\<close>

record world =
  counterRequestSend :: "string \<times> string \<Rightarrow> nat"
  counterRequestRecvReport :: "string \<times> string \<Rightarrow> nat"
  identity_queries :: nat
  last_response :: "response option"

text \<open>\<^verbatim>\<open>counter.WithLabelValues(client, code).Inc()\<close>\<close>

definition Inc :: "(string \<times> string \<Rightarrow> nat) \<Rightarrow> string \<Rightarrow> string \<Rightarrow> (string \<times> string \<Rightarrow> nat)" where
  "Inc counter client code = counter((client, code) := counter (client, code) + 1)"

section \<open>Cluster identity cache\<close>

text \<open>
  \<^verbatim>\<open>func (c *Client) getClusterVersion() (*configv1.ClusterVersion, error)\<close>.
  The receiver is a pointer, so the function returns the Client it was called on as
  it leaves it.
\<close>

definition getClusterVersion ::
    "Client \<Rightarrow> env \<Rightarrow> world \<Rightarrow> (error + ClusterVersion option) \<times> Client \<times> world" where
  "getClusterVersion c e w =
     (case clusterVersion c of
        Some cached \<Rightarrow> (Inr (Some cached), c, w)
      | None \<Rightarrow>
          (case NewForConfig_err e of
             Some err \<Rightarrow> (Inl err, c, w)
           | None \<Rightarrow>
               (let w1 = w\<lparr>identity_queries := identity_queries w + 1\<rparr>;
                    (cv, err) = Get_result e
                in if IsNotFound err then (Inr None, c, w1)
                   else (case err of
                           Some er \<Rightarrow> (Inl er, c, w1)
                         | None \<Rightarrow> (Inr cv, c\<lparr>clusterVersion := cv\<rparr>, w1)))))"

section \<open>Request preparer\<close>

record request =
  Method :: string
  URL :: string
  UserAgent :: string

text \<open>\<^verbatim>\<open>func userAgent(releaseVersionEnv string, v apimachineryversion.Info, cv)\<close>\<close>

definition userAgent :: "string \<Rightarrow> string \<Rightarrow> string \<Rightarrow> ClusterVersion \<Rightarrow> string" where
  "userAgent releaseVersionEnv vGitVersion vGitCommit cv =
     (let gitVersion = (if releaseVersionEnv \<noteq> [] then releaseVersionEnv else vGitVersion);
          gitVersion1 = gitVersion @ ''-'' @ vGitCommit
      in ''insights-operator/'' @ gitVersion1 @ '' cluster/'' @ ClusterID cv)"

text \<open>\<^verbatim>\<open>func (c Client) prepareRequest(ctx, method, endpoint, cv) (*http.Request, error)\<close>\<close>

definition prepareRequest :: "env \<Rightarrow> string \<Rightarrow> string \<Rightarrow> ClusterVersion \<Rightarrow> error + request" where
  "prepareRequest e method endpoint cv =
     (case NewRequest_err e of
        Some err \<Rightarrow> Inl err
      | None \<Rightarrow>
          (let ua = userAgent (RELEASE_VERSION e) (GitVersion e) (GitCommit e) cv
           in case Authorize_err e of
                Some err \<Rightarrow> Inl err
              | None \<Rightarrow> Inr \<lparr>Method = method, URL = endpoint, UserAgent = ua\<rparr>))"

section \<open>Exchange executor\<close>

definition responseBodyLogLen :: nat where
  "responseBodyLogLen = 1024"

text \<open>
  \<^verbatim>\<open>func responseBody(r *http.Response) string\<close>. Every caller passes the response
  of a successful \<^verbatim>\<open>Do\<close>, so the nil guard of line 394 is never taken; the
  function also returns the response with its body as the read left it.
\<close>

definition responseBody :: "response \<Rightarrow> string \<times> response" where
  "responseBody r =
     (let (body, b1) = ReadAll (Body r);
          body1 = (if length body > responseBodyLogLen then take responseBodyLogLen body else body)
      in (body1, r\<lparr>Body := b1\<rparr>))"

text \<open>
  \<^verbatim>\<open>fmt.Sprintf(format)\<close> with no operand, which is how \<^verbatim>\<open>fmt.Errorf(errMessage)\<close>
  on line 407 renders its message: bytes other than \<^verbatim>\<open>%\<close> are copied,
  \<^verbatim>\<open>%%\<close> renders as \<^verbatim>\<open>%\<close>, a verb \<^verbatim>\<open>%v\<close> that finds no operand renders
  as \<^verbatim>\<open>%!v(MISSING)\<close>, and a \<^verbatim>\<open>%\<close> that ends the format renders as
  \<^verbatim>\<open>%!(NOVERB)\<close>. This is the behaviour of the standard library on formats in which
  every \<^verbatim>\<open>%\<close> is followed at once by \<^verbatim>\<open>%\<close> or by a letter; flags, widths,
  precisions and argument indexes between \<^verbatim>\<open>%\<close> and the verb are not modelled
  (the byte after \<^verbatim>\<open>%\<close> is taken as the verb).
\<close>

fun Sprintf0 :: "string \<Rightarrow> string" where
  "Sprintf0 [] = []"
| "Sprintf0 [c] = (if c = CHR ''%'' then ''%!(NOVERB)'' else [c])"
| "Sprintf0 (c # v # cs) =
     (if c = CHR ''%'' then
        (if v = CHR ''%'' then CHR ''%'' # Sprintf0 cs
         else ''%!'' @ [v] @ ''(MISSING)'' @ Sprintf0 cs)
      else c # Sprintf0 (v # cs))"

text \<open>\<^verbatim>\<open>func ocmErrorMessage(url *url.URL, r *http.Response) error\<close>\<close>

definition ocmErrorMessage :: "string \<Rightarrow> response \<Rightarrow> error \<times> response" where
  "ocmErrorMessage url r =
     (let (body, r1) = responseBody r;
          errMessage = ''OCM API '' @ url @ '' returned HTTP '' @ Itoa (StatusCode r) @ '': '' @ body;
          err = Errorf (Sprintf0 errMessage)
      in (HttpError err (StatusCode r), r1))"

text \<open>\<^verbatim>\<open>func (c *Client) IncrementRecvReportMetric(statusCode int)\<close>\<close>

definition IncrementRecvReportMetric :: "Client \<Rightarrow> int \<Rightarrow> world \<Rightarrow> world" where
  "IncrementRecvReportMetric c statusCode w =
     w\<lparr>counterRequestRecvReport :=
          Inc (counterRequestRecvReport w) (metricsName c) (Itoa statusCode)\<rparr>"

subsection \<open>Send\<close>

text \<open>
  The status cascade of \<^verbatim>\<open>Send\<close> (lines 247-269): the error returned, and the
  response as the branch leaves it.
\<close>

definition Send_status :: "response \<Rightarrow> error option \<times> response" where
  "Send_status resp =
     (let requestID = RequestID resp in
      if StatusCode resp = 401 then
        (let (body, r1) = responseBody resp
         in (Some (AuthorizerError (Errorf
              (''your Red Hat account is not enabled for remote support or your token has expired: ''
                @ body))), r1))
      else if StatusCode resp = 403 then
        (Some (AuthorizerError (Errorf
              ''your Red Hat account is not enabled for remote support'')), resp)
      else if StatusCode resp = 400 then
        (let (body, r1) = responseBody resp
         in (Some (Errorf (''gateway server bad request: '' @ RequestURL resp
                @ '' (request='' @ requestID @ ''): '' @ body)), r1))
      else if StatusCode resp \<ge> 300 \<or> StatusCode resp < 200 then
        (let (body, r1) = responseBody resp
         in (Some (Errorf (''gateway server reported unexpected error code: ''
                @ Itoa (StatusCode resp) @ '' (request='' @ requestID @ ''): '' @ body)), r1))
      else (None, resp))"

text \<open>
  The deferred function of lines 236-243: \<^verbatim>\<open>io.Copy(io.Discard, resp.Body)\<close>, then
  \<^verbatim>\<open>resp.Body.Close()\<close>.
\<close>

definition drain_and_close :: "response \<Rightarrow> response" where
  "drain_and_close r = r\<lparr>Body := (snd (ReadAll (Body r)))\<lparr>closed := True\<rparr>\<rparr>"

text \<open>
  \<^verbatim>\<open>type Source struct\<close>. \<^verbatim>\<open>CreationTime\<close> and \<^verbatim>\<open>Contents\<close> are read only
  by the upload encoder and are declared with it below; \<^verbatim>\<open>Send\<close> itself reads
  \<^verbatim>\<open>ID\<close> and \<^verbatim>\<open>Type\<close> for logging only.

  \<^verbatim>\<open>func (c *Client) Send(ctx, endpoint string, source Source) error\<close>: the error
  returned (\<^term>\<open>None\<close> is nil), the Client as the call leaves it (pointer receiver),
  and the world. The request body is produced by the encoder that line 220 starts
  (\<open>Send_body\<close> below); the answer of \<^verbatim>\<open>Do\<close> is the server's and comes from the
  environment.
\<close>

definition Send :: "Client \<Rightarrow> string \<Rightarrow> env \<Rightarrow> world \<Rightarrow> error option \<times> Client \<times> world" where
  "Send c endpoint e w =
     (case getClusterVersion c e w of
        (Inl err, c1, w1) \<Rightarrow> (Some err, c1, w1)
      | (Inr None, c1, w1) \<Rightarrow> (Some ErrWaitingForVersion, c1, w1)
      | (Inr (Some cv), c1, w1) \<Rightarrow>
          (case prepareRequest e ''POST'' endpoint cv of
             Inl err \<Rightarrow> (Some err, c1, w1)
           | Inr req \<Rightarrow>
               (case Do_result e of
                  Inl err \<Rightarrow>
                    (Some (Errorf (''unable to build request to connect to Insights server: ''
                        @ Error err)),
                     c1,
                     w1\<lparr>counterRequestSend := Inc (counterRequestSend w1) (metricsName c1) ''0''\<rparr>)
                | Inr resp \<Rightarrow>
                    (let w2 = w1\<lparr>counterRequestSend :=
                                 Inc (counterRequestSend w1) (metricsName c1) (Itoa (StatusCode resp))\<rparr>;
                         (res, r1) = Send_status resp
                     in (res, c1, w2\<lparr>last_response := Some (drain_and_close r1)\<rparr>)))))"

subsection \<open>RecvReport\<close>

text \<open>
  Lines 318-321, repeated at 326-329 and 339-342: \<^verbatim>\<open>io.ReadAll(resp.Body)\<close>, then
  \<^verbatim>\<open>body = body[:1024]\<close> when it is longer.
\<close>

definition readBody1024 :: "response \<Rightarrow> string \<times> response" where
  "readBody1024 resp =
     (let (body, b1) = ReadAll (Body resp);
          body1 = (if length body > 1024 then take 1024 body else body)
      in (body1, resp\<lparr>Body := b1\<rparr>))"

text \<open>
  The status cascade of \<^verbatim>\<open>RecvReport\<close> (lines 303-352). \<open>c\<close> is the
  receiver, on which \<^verbatim>\<open>IncrementRecvReportMetric\<close> is called. On a returned error the
  response handle is nil (\<^term>\<open>Inl\<close>); the world records the response object as the
  branch leaves it.
\<close>

definition RecvReport_status :: "Client \<Rightarrow> response \<Rightarrow> world \<Rightarrow> (error + response) \<times> world" where
  "RecvReport_status c resp w =
     (let requestID = RequestID resp in
      if StatusCode resp = 401 then
        (Inl (AuthorizerError (Errorf
           ''your Red Hat account is not enabled for remote support or your token has expired'')),
         (IncrementRecvReportMetric c (StatusCode resp) w)\<lparr>last_response := Some resp\<rparr>)
      else if StatusCode resp = 403 then
        (Inl (AuthorizerError (Errorf ''your Red Hat account is not enabled for remote support'')),
         (IncrementRecvReportMetric c (StatusCode resp) w)\<lparr>last_response := Some resp\<rparr>)
      else if StatusCode resp = 400 then
        (let (body, r1) = readBody1024 resp
         in (Inl (Errorf (''gateway server bad request: '' @ RequestURL resp
                @ '' (request='' @ requestID @ ''): '' @ body)),
             (IncrementRecvReportMetric c (StatusCode resp) w)\<lparr>last_response := Some r1\<rparr>))
      else if StatusCode resp = 404 then
        (let (body, r1) = readBody1024 resp;
             notFoundErr = HttpError (Errorf (''not found: '' @ RequestURL resp
                @ '' (request='' @ requestID @ ''): '' @ body)) (StatusCode resp)
         in (Inl notFoundErr,
             (IncrementRecvReportMetric c (StatusCode resp) w)\<lparr>last_response := Some r1\<rparr>))
      else if StatusCode resp \<ge> 300 \<or> StatusCode resp < 200 then
        (let (body, r1) = readBody1024 resp
         in (Inl (Errorf (''gateway server reported unexpected error code: ''
                @ Itoa (StatusCode resp) @ '' (request='' @ requestID @ ''): '' @ body)),
             (IncrementRecvReportMetric c (StatusCode resp) w)\<lparr>last_response := Some r1\<rparr>))
      else if StatusCode resp = 200 then
        (Inr resp, w\<lparr>last_response := Some resp\<rparr>)
      else
        (Inl (Errorf (''Report response status code: '' @ Itoa (StatusCode resp))),
         w\<lparr>last_response := Some resp\<rparr>))"

text \<open>
  \<^verbatim>\<open>func (c Client) RecvReport(ctx, endpoint string) (*http.Response, error)\<close>.
  The receiver is a value: \<open>c\<close> is the callee's copy of the caller's Client, and
  \<^verbatim>\<open>c.getClusterVersion()\<close> is applied to the address of that copy. The copy
  \<open>c1\<close> that \<^term>\<open>getClusterVersion\<close> leaves is used for the rest of the call
  and is dropped at return, so the function returns no Client: the caller's Client
  is as it was.
\<close>

definition RecvReport :: "Client \<Rightarrow> string \<Rightarrow> env \<Rightarrow> world \<Rightarrow> (error + response) \<times> world" where
  "RecvReport c endpoint e w =
     (case getClusterVersion c e w of
        (Inl err, c1, w1) \<Rightarrow> (Inl err, w1)
      | (Inr None, c1, w1) \<Rightarrow> (Inl ErrWaitingForVersion, w1)
      | (Inr (Some cv), c1, w1) \<Rightarrow>
          (let endpoint1 = Sprintf_endpoint e endpoint (ClusterID cv)
           in case prepareRequest e ''GET'' endpoint1 cv of
                Inl err \<Rightarrow> (Inl err, w1)
              | Inr req \<Rightarrow>
                  (case Do_result e of
                     Inl err \<Rightarrow>
                       (Inl err,
                        w1\<lparr>counterRequestRecvReport :=
                             Inc (counterRequestRecvReport w1) (metricsName c1) ''0''\<rparr>)
                   | Inr resp \<Rightarrow> RecvReport_status c1 resp w1)))"

subsection \<open>RecvSCACerts\<close>

text \<open>
  \<^verbatim>\<open>func (c Client) RecvSCACerts(ctx, endpoint string) ([]byte, error)\<close>, a value
  receiver like \<^verbatim>\<open>RecvReport\<close>. The deferred \<^verbatim>\<open>Close\<close> is registered after
  the status test, so it runs on the success path only.
\<close>

definition RecvSCACerts :: "Client \<Rightarrow> string \<Rightarrow> env \<Rightarrow> world \<Rightarrow> (error + string) \<times> world" where
  "RecvSCACerts c endpoint e w =
     (case getClusterVersion c e w of
        (Inl err, c1, w1) \<Rightarrow> (Inl err, w1)
      | (Inr None, c1, w1) \<Rightarrow> (Inl ErrWaitingForVersion, w1)
      | (Inr (Some cv), c1, w1) \<Rightarrow>
          (case Token_result e of
             Inl err \<Rightarrow> (Inl err, w1)
           | Inr token \<Rightarrow>
               (case NewRequest_err e of
                  Some err \<Rightarrow> (Inl err, w1)
                | None \<Rightarrow>
                    (case Do_result e of
                       Inl err \<Rightarrow>
                         (Inl (Errorf (''unable to retrieve SCA certs data from '' @ endpoint
                             @ '': '' @ Error err)), w1)
                     | Inr resp \<Rightarrow>
                         if StatusCode resp > 399 \<or> StatusCode resp < 200 then
                           (let (err, r1) = ocmErrorMessage (RequestURL resp) resp
                            in (Inl err, w1\<lparr>last_response := Some r1\<rparr>))
                         else
                           (let (data, b1) = ReadAll (Body resp)
                            in (Inr data,
                                w1\<lparr>last_response := Some (resp\<lparr>Body := b1\<lparr>closed := True\<rparr>\<rparr>)\<rparr>))))))"

section \<open>Streaming upload encoder\<close>

subsection \<open>Time stamps and quoting\<close>

text \<open>
  \<^verbatim>\<open>time.Time\<close>, by the calendar fields that formatting reads: the results of
  \<^verbatim>\<open>Date\<close>, \<^verbatim>\<open>Clock\<close> and \<^verbatim>\<open>Zone\<close> (the offset in seconds east of UTC).
  The zero time is year 1, January 1, 00:00:00 UTC.
\<close>

record Time =
  Year :: int
  Month :: int
  Day :: int
  Hour :: int
  Minute :: int
  Second :: int
  ZoneOffset :: int

text \<open>
  The standard library's \<^verbatim>\<open>appendInt(b, x, width)\<close>: a minus sign for a negative
  value, then the decimal digits, padded with zeros on the left up to \<open>width\<close>.
\<close>

definition appendInt :: "int \<Rightarrow> nat \<Rightarrow> string" where
  "appendInt x width =
     (let u = nat \<bar>x\<bar>;
          ds = utoa u;
          padded = replicate (width - length ds) (CHR ''0'') @ ds
      in if x < 0 then CHR ''-'' # padded else padded)"

text \<open>
  \<^verbatim>\<open>t.Format(time.RFC3339)\<close>, layout \<^verbatim>\<open>2006-01-02T15:04:05Z07:00\<close>. The zone is
  \<^verbatim>\<open>Z\<close> for offset 0; otherwise the offset is converted to minutes by Go's
  division, which truncates toward zero, and printed as sign, hours and minutes.
\<close>

definition Format_RFC3339 :: "Time \<Rightarrow> string" where
  "Format_RFC3339 t =
     appendInt (Year t) 4 @ ''-'' @ appendInt (Month t) 2 @ ''-'' @ appendInt (Day t) 2 @ ''T''
     @ appendInt (Hour t) 2 @ '':'' @ appendInt (Minute t) 2 @ '':'' @ appendInt (Second t) 2
     @ (if ZoneOffset t = 0 then ''Z''
        else (let zone = (if ZoneOffset t < 0 then - ((- ZoneOffset t) div 60)
                          else ZoneOffset t div 60);
                  sign = (if zone < 0 then ''-'' else ''+'');
                  zone1 = (if zone < 0 then - zone else zone)
              in sign @ appendInt (zone1 div 60) 2 @ '':'' @ appendInt (zone1 mod 60) 2))"

text \<open>
  The verb \<^verbatim>\<open>%q\<close> on a string, that is \<^verbatim>\<open>strconv.Quote\<close>: the string between
  double quotes, with the double quote and the backslash escaped by a backslash,
  printable ASCII bytes kept, and control bytes written as \<^verbatim>\<open>\a \b \f \n \r \t \v\<close>
  or \<^verbatim>\<open>\xhh\<close>. A byte from 0x80 on is written as \<^verbatim>\<open>\xhh\<close>, which is what the
  library does for a byte that is not part of a UTF-8 encoding; the strings quoted in
  this development are ASCII.
\<close>

definition hexdigit :: "nat \<Rightarrow> char" where
  "hexdigit d = ''0123456789abcdef'' ! (d mod 16)"

definition quote_byte :: "char \<Rightarrow> string" where
  "quote_byte c =
     (let n = (of_char c :: nat) in
      if c = CHR 0x22 \<or> c = CHR 0x5C then [CHR 0x5C, c]
      else if 0x20 \<le> n \<and> n < 0x7F then [c]
      else if n = 7 then [CHR 0x5C, CHR ''a'']
      else if n = 8 then [CHR 0x5C, CHR ''b'']
      else if n = 12 then [CHR 0x5C, CHR ''f'']
      else if n = 10 then [CHR 0x5C, CHR ''n'']
      else if n = 13 then [CHR 0x5C, CHR ''r'']
      else if n = 9 then [CHR 0x5C, CHR ''t'']
      else if n = 11 then [CHR 0x5C, CHR ''v'']
      else [CHR 0x5C, CHR ''x'', hexdigit (n div 16), hexdigit (n mod 16)])"

definition Quote :: "string \<Rightarrow> string" where
  "Quote s = CHR 0x22 # concat (map quote_byte s) @ [CHR 0x22]"

subsection \<open>Pipe and multipart writer\<close>

text \<open>
  The write end \<^verbatim>\<open>pw\<close> of \<^verbatim>\<open>io.Pipe()\<close>: open, or closed by
  \<^verbatim>\<open>CloseWithError(err)\<close>, where a nil error (\<^term>\<open>None\<close>) lets the reading side
  see the end of the stream.
\<close>

datatype pipe_state = Open | Closed "error option"

text \<open>
  \<^verbatim>\<open>multipart.Writer\<close> on top of the pipe. The bytes written to the pipe are
  represented by the parts they decode to, each with its header fields and its body:
  the parts already closed, the part still open for writing (\<^verbatim>\<open>w.lastpart\<close>),
  and whether the closing boundary was written. The transport is taken to read the
  request body to its end, so a write fails only when the pipe has been closed.
\<close>

record part =
  part_header :: "(string \<times> string) list"
  part_body :: string

record mwriter =
  written_parts :: "part list"
  lastpart :: "part option"
  finished :: bool
  pipe :: pipe_state

definition NewWriter :: mwriter where
  "NewWriter = \<lparr>written_parts = [], lastpart = None, finished = False, pipe = Open\<rparr>"

definition uploaded_parts :: "mwriter \<Rightarrow> part list" where
  "uploaded_parts m = written_parts m @ (case lastpart m of None \<Rightarrow> [] | Some p \<Rightarrow> [p])"

definition close_lastpart :: "mwriter \<Rightarrow> mwriter" where
  "close_lastpart m = m\<lparr>written_parts := uploaded_parts m, lastpart := None\<rparr>"

text \<open>
  \<^verbatim>\<open>mw.CreatePart(h)\<close> closes the open part and writes the boundary and the header
  of the new part to the pipe; it fails when that write fails.
\<close>

definition CreatePart :: "(string \<times> string) list \<Rightarrow> mwriter \<Rightarrow> error option \<times> mwriter" where
  "CreatePart h m =
     (if pipe m \<noteq> Open then (Some ErrClosedPipe, close_lastpart m)
      else (None, (close_lastpart m)\<lparr>lastpart := Some \<lparr>part_header = h, part_body = []\<rparr>\<rparr>))"

text \<open>
  \<^verbatim>\<open>mw.CreateFormFile(fieldname, filename)\<close>: \<^verbatim>\<open>CreatePart\<close> with the header
  \<^verbatim>\<open>form-data; name="..."; filename="..."\<close> and the content type
  \<^verbatim>\<open>application/octet-stream\<close>.
\<close>

definition CreateFormFile :: "string \<Rightarrow> string \<Rightarrow> mwriter \<Rightarrow> error option \<times> mwriter" where
  "CreateFormFile fieldname filename m =
     CreatePart [(''Content-Disposition'',
                  ''form-data; name='' @ [CHR 0x22] @ fieldname @ [CHR 0x22] @ ''; filename=''
                    @ [CHR 0x22] @ filename @ [CHR 0x22]),
                 (''Content-Type'', ''application/octet-stream'')] m"

text \<open>\<^verbatim>\<open>fw.Write(p)\<close> on the part writer that \<^verbatim>\<open>CreatePart\<close> returned last.\<close>

definition part_Write :: "string \<Rightarrow> mwriter \<Rightarrow> error option \<times> mwriter" where
  "part_Write p m =
     (case lastpart m of
        None \<Rightarrow> (Some (Foreign ''multipart: can't write to finished part''), m)
      | Some fw \<Rightarrow>
          if pipe m \<noteq> Open then (Some ErrClosedPipe, m)
          else (None, m\<lparr>lastpart := Some (fw\<lparr>part_body := part_body fw @ p\<rparr>)\<rparr>))"

text \<open>\<^verbatim>\<open>mw.Close()\<close> closes the open part and writes the closing boundary.\<close>

definition mw_Close :: "mwriter \<Rightarrow> error option \<times> mwriter" where
  "mw_Close m =
     (if pipe m \<noteq> Open then (Some ErrClosedPipe, close_lastpart m)
      else (None, (close_lastpart m)\<lparr>finished := True\<rparr>))"

text \<open>
  \<^verbatim>\<open>pw.CloseWithError(err)\<close>: the first close decides; a later one does not
  overwrite it.
\<close>

definition CloseWithError :: "error option \<Rightarrow> mwriter \<Rightarrow> mwriter" where
  "CloseWithError err m = (case pipe m of Open \<Rightarrow> m\<lparr>pipe := Closed err\<rparr> | Closed e \<Rightarrow> m)"

subsection \<open>Readers and the copy loop\<close>

text \<open>
  \<^verbatim>\<open>source.Contents\<close>, an \<^verbatim>\<open>io.ReadCloser\<close>: the bytes that the stream still
  holds, and the error that ends it (\<^term>\<open>None\<close> when it ends with \<^verbatim>\<open>io.EOF\<close>).
  \<^verbatim>\<open>Read\<close> into a buffer of \<open>n\<close> bytes hands out the next bytes, as many as
  fit.
\<close>

record reader =
  pending :: string
  read_err :: "error option"

definition reader_Read :: "reader \<Rightarrow> nat \<Rightarrow> string \<times> error option \<times> reader" where
  "reader_Read r n =
     (if pending r = [] then ([], Some (case read_err r of None \<Rightarrow> EOF | Some e \<Rightarrow> e), r)
      else (take n (pending r), None, r\<lparr>pending := drop n (pending r)\<rparr>))"

text \<open>
  Modelled from the spec: the type \<^verbatim>\<open>LimitedReader\<close>, built on line 431 from the
  content stream and the byte ceiling, is declared in a file of the package whose code
  is not available; the fields are those that line 431 sets.
\<close>

record LimitedReader =
  R :: reader
  N :: int

text \<open>
  Modelled from the spec: the method \<^verbatim>\<open>Read\<close> of \<^verbatim>\<open>LimitedReader\<close>, whose code
  is not available. The spec (4.4) says that the content is "capped to the ceiling"
  and that "the ceiling is enforced by truncation, not error: bytes beyond the ceiling
  are silently dropped from the copy". So \<^verbatim>\<open>Read\<close> hands out at most \<open>N\<close>
  bytes in all, counting \<open>N\<close> down by what it read, and reports the end of the
  stream once \<open>N\<close> is used up.
\<close>

definition LimitedReader_Read :: "LimitedReader \<Rightarrow> nat \<Rightarrow> string \<times> error option \<times> LimitedReader" where
  "LimitedReader_Read l n =
     (if N l \<le> 0 then ([], Some EOF, l)
      else (let n1 = (if int n > N l then nat (N l) else n);
                (p, err, r1) = reader_Read (R l) n1
            in (p, err, l\<lparr>R := r1, N := N l - int (length p)\<rparr>)))"

text \<open>A read that returns no error has made progress: this is what ends the copy loop.\<close>

lemma LimitedReader_Read_progress:
  assumes "LimitedReader_Read src n = (buf, None, src1)" and "0 < n"
  shows "buf \<noteq> [] \<and> length (pending (R src1)) < length (pending (R src))"
proof -
  have pos: "0 < N src"
    using assms(1) by (auto simp add: LimitedReader_Read_def split: if_splits)
  define n1 where "n1 = (if int n > N src then nat (N src) else n)"
  have n1: "0 < n1" using pos assms(2) by (simp add: n1_def)
  have rd: "reader_Read (R src) n1 = (buf, None, R src1)"
    using assms(1) pos
    by (auto simp add: LimitedReader_Read_def Let_def n1_def split: prod.splits if_splits)
  then have ne: "pending (R src) \<noteq> []"
    by (auto simp add: reader_Read_def split: if_splits)
  from rd ne have b: "buf = take n1 (pending (R src))"
    and r: "R src1 = (R src)\<lparr>pending := drop n1 (pending (R src))\<rparr>"
    by (auto simp add: reader_Read_def)
  have "pending (R src1) = drop n1 (pending (R src))" by (simp add: r)
  with b show ?thesis using ne n1 by (cases "pending (R src)") auto
qed

text \<open>
  \<^verbatim>\<open>io.Copy(fw, r)\<close>, the standard library's loop over a buffer of 32 KiB: read; write
  what was read, stopping at a write error; stop at a read error, which is reported
  unless it is \<^verbatim>\<open>io.EOF\<close>. It returns the number of bytes written and the error.
\<close>

function io_Copy :: "mwriter \<Rightarrow> LimitedReader \<Rightarrow> nat \<Rightarrow> nat \<times> error option \<times> mwriter \<times> LimitedReader" where
  "io_Copy dst src written =
     (case LimitedReader_Read src (32 * 1024) of
        (buf, er, src1) \<Rightarrow>
          if buf \<noteq> [] then
            (case part_Write buf dst of
               (Some ew, dst1) \<Rightarrow> (written, Some ew, dst1, src1)
             | (None, dst1) \<Rightarrow>
                 (case er of
                    Some e \<Rightarrow> (written + length buf, if e = EOF then None else Some e, dst1, src1)
                  | None \<Rightarrow> io_Copy dst1 src1 (written + length buf)))
          else
            (case er of
               Some e \<Rightarrow> (written, if e = EOF then None else Some e, dst, src1)
             | None \<Rightarrow> io_Copy dst src1 written))"
  by pat_completeness auto
termination
proof (relation "measure (\<lambda>(dst, src, written). length (pending (R src)))")
  show "wf (measure (\<lambda>(dst, src, written). length (pending (R src))))" by simp
next
  fix dst :: mwriter and src :: LimitedReader and written :: nat
    and x y xa ya xb yb
  assume "(x, y) = LimitedReader_Read src (32 * 1024)" "(xa, ya) = y" "xa = None"
  then have "LimitedReader_Read src (32 * 1024) = (x, None, ya)" by simp
  from LimitedReader_Read_progress [OF this]
  show "((yb, ya, written + length x), dst, src, written)
          \<in> measure (\<lambda>(dst, src, written). length (pending (R src)))" by simp
next
  fix dst :: mwriter and src :: LimitedReader and written :: nat
    and x y xa ya
  assume "(x, y) = LimitedReader_Read src (32 * 1024)" "(xa, ya) = y" "xa = None"
  then have "LimitedReader_Read src (32 * 1024) = (x, None, ya)" by simp
  from LimitedReader_Read_progress [OF this]
  show "((dst, ya, written), dst, src, written)
          \<in> measure (\<lambda>(dst, src, written). length (pending (R src)))" by simp
qed

declare io_Copy.simps [simp del]

subsection \<open>The encoder\<close>

text \<open>\<^verbatim>\<open>type Source struct\<close>\<close>

record Source =
  ID :: string
  Type :: string
  CreationTime :: Time
  Contents :: reader

text \<open>
  \<^verbatim>\<open>func (c *Client) createAndWriteMIMEHeader(source, mw, pw, ch)\<close>. The writer
  \<open>mw\<close> carries the pipe \<open>pw\<close>. The result is the value sent on \<open>ch\<close>
  (\<^term>\<open>None\<close> when the function returns before line 433), the writer as the
  function leaves it, and the content stream as it leaves it.
\<close>

definition createAndWriteMIMEHeader ::
    "Client \<Rightarrow> Source \<Rightarrow> mwriter \<Rightarrow> nat option \<times> mwriter \<times> reader" where
  \<open>createAndWriteMIMEHeader c source mw =
     (let h = [(''Content-Disposition'',
                ''form-data; name='' @ Quote ''file'' @ ''; filename='' @ Quote ''payload.tar.gz''),
               (''Content-Type'', Type source)]
      in case CreatePart h mw of
           (Some err, mw1) \<Rightarrow> (None, CloseWithError (Some err) mw1, Contents source)
         | (None, mw1) \<Rightarrow>
             (let r = \<lparr>R = Contents source, N = maxBytes c\<rparr>;
                  (n, err, mw2, r1) = io_Copy mw1 r 0;
                  ch = Some n;
                  mw3 = (case err of Some e \<Rightarrow> CloseWithError (Some e) mw2 | None \<Rightarrow> mw2)
              in case CreateFormFile ''metadata'' ''metadata.json'' mw3 of
                   (Some err1, mw4) \<Rightarrow> (ch, CloseWithError (Some err1) mw4, R r1)
                 | (None, mw4) \<Rightarrow>
                     (let cm = ''{"custom_metadata":{"gathering_time":''
                                 @ Quote (Format_RFC3339 (CreationTime source)) @ ''}}'';
                          (err2, mw5) = part_Write cm mw4;
                          mw6 = (case err2 of Some e \<Rightarrow> CloseWithError (Some e) mw5
                                 | None \<Rightarrow> mw5);
                          (err3, mw7) = mw_Close mw6
                      in (ch, CloseWithError err3 mw7, R r1))))\<close>

text \<open>
  The request body of \<^verbatim>\<open>Send\<close>: lines 217-220 make a fresh pipe and a fresh
  multipart writer on it and start the encoder on them.
\<close>

definition Send_body :: "Client \<Rightarrow> Source \<Rightarrow> nat option \<times> mwriter \<times> reader" where
  "Send_body c source = createAndWriteMIMEHeader c source NewWriter"

section \<open>Auxiliary notions and concrete inputs\<close>

text \<open>The class of errors that are built by \<^verbatim>\<open>fmt.Errorf\<close> alone (the generic errors).\<close>

fun IsErrorf :: "error \<Rightarrow> bool" where
  "IsErrorf (Errorf m) = True"
| "IsErrorf _ = False"

text \<open>
  A call of \<^verbatim>\<open>Send\<close> or \<^verbatim>\<open>RecvReport\<close> gets as far as \<^verbatim>\<open>c.client.Do\<close>
  when the identity is resolved and \<^verbatim>\<open>prepareRequest\<close> succeeds.
\<close>

definition exchange_attempted :: "Client \<Rightarrow> env \<Rightarrow> world \<Rightarrow> bool" where
  "exchange_attempted c e w =
     (case fst (getClusterVersion c e w) of
        Inr (Some cv) \<Rightarrow> NewRequest_err e = None \<and> Authorize_err e = None
      | _ \<Rightarrow> False)"

text \<open>Concrete inputs on which the theorems below are evaluated.\<close>

definition example_cv :: ClusterVersion where
  "example_cv = \<lparr>ClusterID = ''c-42''\<rparr>"

definition example_response :: "int \<Rightarrow> string \<Rightarrow> response" where
  "example_response code body =
     \<lparr>StatusCode = code, RequestID = ''req-7'', RequestURL = ''https://console.example/api'',
      Body = \<lparr>unread = body, at_eof = False, closed = False\<rparr>\<rparr>"

definition example_env :: "ClusterVersion option \<times> error option \<Rightarrow> error + response \<Rightarrow> env" where
  "example_env g d =
     \<lparr>NewForConfig_err = None, Get_result = g, NewRequest_err = None, Authorize_err = None,
      Token_result = Inr ''token'', Do_result = d, RELEASE_VERSION = [], GitVersion = ''v1.2.3'',
      GitCommit = ''abcdef'', Sprintf_endpoint = (\<lambda>f a. f @ a)\<rparr>"

definition world0 :: world where
  "world0 = \<lparr>counterRequestSend = (\<lambda>k. 0), counterRequestRecvReport = (\<lambda>k. 0),
             identity_queries = 0, last_response = None\<rparr>"

text \<open>The writer after \<open>p\<close> was appended to the body of its open part.\<close>

definition append_last :: "string \<Rightarrow> mwriter \<Rightarrow> mwriter" where
  "append_last p m = m\<lparr>lastpart := map_option (\<lambda>fw. fw\<lparr>part_body := part_body fw @ p\<rparr>) (lastpart m)\<rparr>"

text \<open>The error with which a read past the last byte of a content stream ends the copy.\<close>

definition read_end :: "reader \<Rightarrow> error option" where
  "read_end r = (case read_err r of None \<Rightarrow> None | Some e \<Rightarrow> if e = EOF then None else Some e)"

text \<open>
  The metadata object as the spec words it (section 6):
  \<^verbatim>\<open>{"custom_metadata":{"gathering_time":"<RFC3339 timestamp>"}}\<close>.
\<close>

definition metadata_json :: "Time \<Rightarrow> string" where
  \<open>metadata_json t = ''{"custom_metadata":{"gathering_time":"'' @ Format_RFC3339 t @ ''"}}''\<close>

text \<open>The header fields of the two parts, written out.\<close>

definition file_header :: "string \<Rightarrow> (string \<times> string) list" where
  \<open>file_header type =
     [(''Content-Disposition'', ''form-data; name="file"; filename="payload.tar.gz"''),
      (''Content-Type'', type)]\<close>

definition metadata_header :: "(string \<times> string) list" where
  \<open>metadata_header =
     [(''Content-Disposition'', ''form-data; name="metadata"; filename="metadata.json"''),
      (''Content-Type'', ''application/octet-stream'')]\<close>

definition zero_time :: Time where
  "zero_time = \<lparr>Year = 1, Month = 1, Day = 1, Hour = 0, Minute = 0, Second = 0, ZoneOffset = 0\<rparr>"

definition example_time :: Time where
  "example_time =
     \<lparr>Year = 2023, Month = 1, Day = 1, Hour = 0, Minute = 0, Second = 0, ZoneOffset = 0\<rparr>"

definition example_source :: "Time \<Rightarrow> string \<Rightarrow> error option \<Rightarrow> Source" where
  "example_source t content err =
     \<lparr>ID = ''abc'', Type = ''application/vnd.redhat.testareaOS.filename+tgz'',
      CreationTime = t, Contents = \<lparr>pending = content, read_err = err\<rparr>\<rparr>"

section \<open>Basic facts\<close>

lemma getClusterVersion_not_found:
  "clusterVersion c = None \<Longrightarrow> NewForConfig_err e = None \<Longrightarrow> IsNotFound (snd (Get_result e))
   \<Longrightarrow> fst (getClusterVersion c e w) = Inr None"
  by (cases "Get_result e") (simp add: getClusterVersion_def Let_def)

lemma getClusterVersion_metricsName:
  "metricsName (fst (snd (getClusterVersion c e w))) = metricsName c"
  by (cases "Get_result e")
     (simp add: getClusterVersion_def Let_def split: option.splits)

lemma getClusterVersion_counters:
  "counterRequestSend (snd (snd (getClusterVersion c e w))) = counterRequestSend w"
  "counterRequestRecvReport (snd (snd (getClusterVersion c e w))) = counterRequestRecvReport w"
  by (cases "Get_result e"; simp add: getClusterVersion_def Let_def split: option.splits)+

lemma responseBody_eq:
  "responseBody r =
     (take 1024 (unread (Body r)), r\<lparr>Body := (Body r)\<lparr>unread := [], at_eof := True\<rparr>\<rparr>)"
  by (simp add: responseBody_def ReadAll_def responseBodyLogLen_def)

lemma readBody1024_eq:
  "readBody1024 r =
     (take 1024 (unread (Body r)), r\<lparr>Body := (Body r)\<lparr>unread := [], at_eof := True\<rparr>\<rparr>)"
  by (simp add: readBody1024_def ReadAll_def)

lemma responseBody_length: "length (fst (responseBody r)) \<le> 1024"
  by (simp add: responseBody_eq)

lemma readBody1024_length: "length (fst (readBody1024 r)) \<le> 1024"
  by (simp add: readBody1024_eq)

lemma Itoa_examples:
  "Itoa 200 = ''200''" "Itoa 401 = ''401''" "Itoa 404 = ''404''" "Itoa 500 = ''500''"
  by code_simp+

lemma example_identity:
  "fst (getClusterVersion (New 0 ''insights'') (example_env (Some example_cv, None) d) world0)
     = Inr (Some example_cv)"
  by (simp add: getClusterVersion_def New_def example_env_def Let_def)

lemma example_env_Do: "Do_result (example_env g d) = d"
  by (simp add: example_env_def)

lemma example_attempted:
  "exchange_attempted (New 0 ''insights'') (example_env (Some example_cv, None) d) world0"
  by (simp add: exchange_attempted_def example_identity) (simp add: example_env_def)

text \<open>
  \<^verbatim>\<open>Send\<close> has a pointer receiver: the identity that it resolves is stored on the
  caller's Client, and a later lookup on that Client answers from the store without
  a query, whatever the identity source would say.
\<close>

lemma Send_memoizes:
  assumes "fst (getClusterVersion c e w) = Inr (Some cv)"
  shows "clusterVersion (fst (snd (Send c ep e w))) = Some cv
       \<and> getClusterVersion (fst (snd (Send c ep e w))) e' w'
           = (Inr (Some cv), fst (snd (Send c ep e w)), w')"
proof -
  obtain c1 w1 where g: "getClusterVersion c e w = (Inr (Some cv), c1, w1)"
    using assms by (cases "getClusterVersion c e w") auto
  have c1: "clusterVersion c1 = Some cv"
    using g by (cases "Get_result e")
      (auto simp add: getClusterVersion_def Let_def split: option.splits if_splits)
  have "fst (snd (Send c ep e w)) = c1"
    using g by (simp add: Send_def Let_def split: sum.splits prod.splits)
  then show ?thesis using c1 by (simp add: getClusterVersion_def)
qed

text \<open>
  Whenever \<^verbatim>\<open>Send\<close> receives a response, its deferred function leaves the body
  read to its end and closed.
\<close>

lemma Send_drains:
  assumes "exchange_attempted c e w" and "Do_result e = Inr resp"
  shows "\<exists>r. last_response (snd (snd (Send c ep e w))) = Some r
           \<and> unread (Body r) = [] \<and> at_eof (Body r) \<and> closed (Body r)"
proof -
  obtain r c1 w1 where g: "getClusterVersion c e w = (r, c1, w1)"
    by (cases "getClusterVersion c e w") auto
  show ?thesis using assms g
    by (auto simp add: Send_def exchange_attempted_def prepareRequest_def Let_def Send_status_def
          responseBody_eq drain_and_close_def ReadAll_def
          split: sum.splits option.splits prod.splits)
qed

section \<open>Facts about the encoder\<close>

lemma digit_in: "digit d \<in> set ''0123456789''"
proof -
  have "d mod 10 < length ''0123456789''" by simp
  then show ?thesis unfolding digit_def by (rule nth_mem)
qed

lemma utoa_digits: "set (utoa n) \<subseteq> set ''0123456789''"
proof (induction n rule: utoa.induct)
  case (1 n)
  show ?case
  proof (cases "n < 10")
    case True
    then show ?thesis using digit_in [of n] by (subst utoa.simps) simp
  next
    case False
    then show ?thesis using 1 digit_in [of "n mod 10"] by (subst utoa.simps) simp
  qed
qed

definition rfc3339_alphabet :: "char set" where
  "rfc3339_alphabet = set ''0123456789-+:TZ''"

lemma appendInt_alphabet: "set (appendInt x w) \<subseteq> rfc3339_alphabet"
  using utoa_digits [of "nat \<bar>x\<bar>"]
  by (auto simp add: appendInt_def Let_def rfc3339_alphabet_def)

lemma Format_alphabet: "set (Format_RFC3339 t) \<subseteq> rfc3339_alphabet"
proof -
  have c: "set ''-'' \<subseteq> rfc3339_alphabet" "set ''+'' \<subseteq> rfc3339_alphabet"
    "set '':'' \<subseteq> rfc3339_alphabet" "set ''T'' \<subseteq> rfc3339_alphabet" "set ''Z'' \<subseteq> rfc3339_alphabet"
    by (simp_all add: rfc3339_alphabet_def)
  show ?thesis
    unfolding Format_RFC3339_def Let_def
    by (simp only: set_append Un_subset_iff appendInt_alphabet c if_split simp_thms split: if_split)
qed

lemma quote_byte_plain: "c \<in> rfc3339_alphabet \<Longrightarrow> quote_byte c = [c]"
  by (auto simp add: rfc3339_alphabet_def quote_byte_def)

lemma quote_plain: "set s \<subseteq> rfc3339_alphabet \<Longrightarrow> concat (map quote_byte s) = s"
  by (induction s) (simp_all add: quote_byte_plain)

lemma Quote_Format: "Quote (Format_RFC3339 t) = CHR 0x22 # Format_RFC3339 t @ [CHR 0x22]"
  by (simp add: Quote_def quote_plain Format_alphabet)


lemma part_Write_open:
  "pipe m = Open \<Longrightarrow> lastpart m \<noteq> None \<Longrightarrow> part_Write p m = (None, append_last p m)"
  by (auto simp add: part_Write_def append_last_def)

lemma append_last_twice: "append_last q (append_last p m) = append_last (p @ q) m"
  by (cases "lastpart m") (simp_all add: append_last_def)

lemma append_last_Nil: "append_last [] m = m"
  by (cases "lastpart m") (simp_all add: append_last_def)

lemma append_last_fields:
  "pipe (append_last p m) = pipe m"
  "written_parts (append_last p m) = written_parts m" "finished (append_last p m) = finished m"
  by (simp_all add: append_last_def)

lemma append_last_lastpart: "lastpart m \<noteq> None \<Longrightarrow> lastpart (append_last p m) \<noteq> None"
  by (simp add: append_last_def)

lemma take_split:
  "n1 \<le> n \<Longrightarrow> take n1 xs @ take (n - length (take n1 xs)) (drop n1 xs) = take n xs"
proof (cases "length xs \<le> n1")
  case True
  assume "n1 \<le> n"
  with True show ?thesis by simp
next
  case False
  assume le: "n1 \<le> n"
  from False have "length (take n1 xs) = n1" by simp
  moreover have "take n1 xs @ take (n - n1) (drop n1 xs) = take (n1 + (n - n1)) xs"
    by (simp add: take_add)
  ultimately show ?thesis using le by simp
qed

lemma io_Copy_eq:
  "pipe dst = Open \<Longrightarrow> lastpart dst \<noteq> None \<Longrightarrow>
   io_Copy dst src written =
     (written + length (take (nat (N src)) (pending (R src))),
      (if int (length (pending (R src))) < N src then read_end (R src) else None),
      append_last (take (nat (N src)) (pending (R src))) dst,
      src\<lparr>R := (R src)\<lparr>pending := drop (nat (N src)) (pending (R src))\<rparr>,
          N := N src - int (length (take (nat (N src)) (pending (R src))))\<rparr>)"
proof (induction dst src written rule: io_Copy.induct)
  case (1 dst src written)
  show ?case
  proof (cases "N src \<le> 0")
    case True
    then show ?thesis
      by (subst io_Copy.simps) (simp add: LimitedReader_Read_def append_last_Nil)
  next
    case pos: False
    show ?thesis
    proof (cases "pending (R src) = []")
      case True
      then show ?thesis using pos
        by (subst io_Copy.simps)
           (auto simp add: LimitedReader_Read_def reader_Read_def append_last_Nil read_end_def
              Let_def split: option.splits)
    next
      case ne: False
      define n1 where "n1 = (if int (32 * 1024) > N src then nat (N src) else 32 * 1024)"
      define buf where "buf = take n1 (pending (R src))"
      define src1 where "src1 = src\<lparr>R := (R src)\<lparr>pending := drop n1 (pending (R src))\<rparr>,
                                   N := N src - int (length buf)\<rparr>"
      have n1: "0 < n1" "n1 \<le> nat (N src)" using pos by (auto simp add: n1_def)
      have rd: "LimitedReader_Read src (32 * 1024) = (buf, None, src1)"
        using pos ne by (simp add: LimitedReader_Read_def reader_Read_def Let_def n1_def buf_def src1_def)
      have bne: "buf \<noteq> []" using ne n1 by (cases "pending (R src)") (auto simp add: buf_def)
      have w: "part_Write buf dst = (None, append_last buf dst)"
        using "1.prems" by (rule part_Write_open)
      have ih: "io_Copy (append_last buf dst) src1 (written + length buf) =
         (written + length buf + length (take (nat (N src1)) (pending (R src1))),
          (if int (length (pending (R src1))) < N src1 then read_end (R src1) else None),
          append_last (take (nat (N src1)) (pending (R src1))) (append_last buf dst),
          src1\<lparr>R := (R src1)\<lparr>pending := drop (nat (N src1)) (pending (R src1))\<rparr>,
               N := N src1 - int (length (take (nat (N src1)) (pending (R src1))))\<rparr>)"
      proof (rule "1.IH"(1) [OF rd [symmetric] refl bne w [symmetric] refl refl])
        show "pipe (append_last buf dst) = Open" using "1.prems" by (simp add: append_last_fields)
        show "lastpart (append_last buf dst) \<noteq> None"
          using "1.prems" by (simp only: append_last_lastpart not_False_eq_True)
      qed
      have lb: "length buf \<le> nat (N src)" using n1 by (simp add: buf_def)
      have N1: "nat (N src1) = nat (N src) - length buf" using lb by (simp add: src1_def)
      define t1 where "t1 = take (nat (N src1)) (pending (R src1))"
      define t where "t = take (nat (N src)) (pending (R src))"
      have split: "buf @ t1 = t"
        unfolding t1_def t_def N1 unfolding buf_def src1_def using take_split [OF n1(2)] by simp
      have len: "length buf + length t1 = length t"
        using arg_cong [OF split, of length] by simp
      have ee: "(int (length (pending (R src1))) < N src1) = (int (length (pending (R src))) < N src)"
        using n1 by (auto simp add: src1_def buf_def min_def)
      have re: "read_end (R src1) = read_end (R src)" by (simp add: src1_def read_end_def)
      have dr: "drop (nat (N src1)) (pending (R src1)) = drop (nat (N src)) (pending (R src))"
        unfolding N1 using n1 by (auto simp add: src1_def buf_def min_def)
      have c1: "written + length buf + length t1 = written + length t" using len by simp
      have c3: "append_last t1 (append_last buf dst) = append_last t dst"
        by (simp add: append_last_twice split)
      have "N src1 - int (length t1) = N src - int (length t)"
        using len by (simp add: src1_def)
      then have c4: "src1\<lparr>R := (R src1)\<lparr>pending := drop (nat (N src)) (pending (R src))\<rparr>,
                         N := N src1 - int (length t1)\<rparr>
                   = src\<lparr>R := (R src)\<lparr>pending := drop (nat (N src)) (pending (R src))\<rparr>,
                         N := N src - int (length t)\<rparr>"
        by (simp add: src1_def)
      have "io_Copy dst src written = io_Copy (append_last buf dst) src1 (written + length buf)"
        by (subst io_Copy.simps)
           (simp only: rd prod.case bne if_True w option.case not_False_eq_True simp_thms)
      also have "\<dots> = (written + length t,
          (if int (length (pending (R src))) < N src then read_end (R src) else None),
          append_last t dst,
          src\<lparr>R := (R src)\<lparr>pending := drop (nat (N src)) (pending (R src))\<rparr>,
              N := N src - int (length t)\<rparr>)"
        unfolding ih t1_def [symmetric] dr ee re c1 c3 c4 ..
      finally show ?thesis unfolding t_def .
    qed
  qed
qed


lemma Format_examples:
  "Format_RFC3339 zero_time = ''0001-01-01T00:00:00Z''"
  "Format_RFC3339 example_time = ''2023-01-01T00:00:00Z''"
  by code_simp+

lemma Quote_names:
  \<open>Quote ''file'' = ''"file"''\<close> \<open>Quote ''payload.tar.gz'' = ''"payload.tar.gz"''\<close>
  by (simp_all add: Quote_def quote_byte_def)

lemma cm_eq:
  \<open>''{"custom_metadata":{"gathering_time":'' @ Quote (Format_RFC3339 t) @ ''}}'' = metadata_json t\<close>
  by (simp add: Quote_Format metadata_json_def)

lemma Send_body_eq:
  "Send_body c source =
     (let content = pending (Contents source);
          file = \<lparr>part_header = file_header (Type source),
                  part_body = take (nat (maxBytes c)) content\<rparr>;
          meta = \<lparr>part_header = metadata_header,
                  part_body = metadata_json (CreationTime source)\<rparr>;
          rest = (Contents source)\<lparr>pending := drop (nat (maxBytes c)) content\<rparr>
      in if int (length content) < maxBytes c \<and> read_end (Contents source) \<noteq> None
         then (Some (length content),
               \<lparr>written_parts = [file], lastpart = None, finished = False,
                 pipe = Closed (read_end (Contents source))\<rparr>,
               rest)
         else (Some (length (take (nat (maxBytes c)) content)),
               \<lparr>written_parts = [file, meta], lastpart = None, finished = True,
                 pipe = Closed None\<rparr>,
               rest))"
proof -
  define mw1 where
    "mw1 = NewWriter\<lparr>lastpart := Some \<lparr>part_header = file_header (Type source), part_body = []\<rparr>\<rparr>"
  define content where "content = pending (Contents source)"
  have cp: "CreatePart [(''Content-Disposition'',
                ''form-data; name='' @ Quote ''file'' @ ''; filename='' @ Quote ''payload.tar.gz''),
               (''Content-Type'', Type source)] NewWriter = (None, mw1)"
    by (simp add: CreatePart_def NewWriter_def mw1_def close_lastpart_def uploaded_parts_def
          file_header_def Quote_names)
  have o: "pipe mw1 = Open" "lastpart mw1 \<noteq> None" by (simp_all add: mw1_def NewWriter_def)
  have cpy: "io_Copy mw1 \<lparr>R = Contents source, N = maxBytes c\<rparr> 0 =
      (length (take (nat (maxBytes c)) content),
       (if int (length content) < maxBytes c then read_end (Contents source) else None),
       append_last (take (nat (maxBytes c)) content) mw1,
       \<lparr>R = (Contents source)\<lparr>pending := drop (nat (maxBytes c)) content\<rparr>,
        N = maxBytes c - int (length (take (nat (maxBytes c)) content))\<rparr>)"
    unfolding content_def
    by (simp only: io_Copy_eq [OF o] LimitedReader.simps add_0 LimitedReader.update_convs)
  have fp: "append_last (take (nat (maxBytes c)) content) mw1 =
      \<lparr>written_parts = [],
        lastpart = Some \<lparr>part_header = file_header (Type source),
                         part_body = take (nat (maxBytes c)) content\<rparr>,
        finished = False, pipe = Open\<rparr>"
    by (simp add: append_last_def mw1_def NewWriter_def)
  show ?thesis
  proof (cases "int (length content) < maxBytes c \<and> read_end (Contents source) \<noteq> None")
    case True
    then obtain e where e: "read_end (Contents source) = Some e" by auto
    have "Send_body c source =
        (Some (length content),
         \<lparr>written_parts = [\<lparr>part_header = file_header (Type source),
                             part_body = take (nat (maxBytes c)) content\<rparr>],
           lastpart = None, finished = False, pipe = Closed (Some e)\<rparr>,
         (Contents source)\<lparr>pending := drop (nat (maxBytes c)) content\<rparr>)"
      unfolding Send_body_def createAndWriteMIMEHeader_def Let_def cp
      apply (simp only: cpy prod.case fp)
      using True
      apply (simp add: e CloseWithError_def CreateFormFile_def CreatePart_def close_lastpart_def
               uploaded_parts_def)
      done
    then show ?thesis using True by (simp add: Let_def content_def [symmetric] e)
  next
    case False
    then have ne: "(if int (length content) < maxBytes c
                    then read_end (Contents source) else None) = None" by auto
    have "Send_body c source =
        (Some (length (take (nat (maxBytes c)) content)),
         \<lparr>written_parts = [\<lparr>part_header = file_header (Type source),
                             part_body = take (nat (maxBytes c)) content\<rparr>,
                           \<lparr>part_header = metadata_header,
                             part_body = metadata_json (CreationTime source)\<rparr>],
           lastpart = None, finished = True, pipe = Closed None\<rparr>,
         (Contents source)\<lparr>pending := drop (nat (maxBytes c)) content\<rparr>)"
      unfolding Send_body_def createAndWriteMIMEHeader_def Let_def cp cm_eq
      apply (simp only: cpy prod.case fp ne option.case)
      apply (simp add: CloseWithError_def CreateFormFile_def CreatePart_def close_lastpart_def
               uploaded_parts_def part_Write_def mw_Close_def metadata_header_def)
      done
    then show ?thesis using False by (simp add: Let_def content_def [symmetric])
  qed
qed

section \<open>Claims\<close>

subsection \<open>C1: an identity that is not found yields the Not-Ready sentinel\<close>

text \<open>
  C1: whenever the identity lookup reports "resource not found", that is
  \<^verbatim>\<open>getClusterVersion\<close> returns a nil identity and a nil error, each of
  \<^verbatim>\<open>Send\<close>, \<^verbatim>\<open>RecvReport\<close> and \<^verbatim>\<open>RecvSCACerts\<close> returns the sentinel
  \<^verbatim>\<open>ErrWaitingForVersion\<close>, which is neither a generic, nor an authorization, nor an
  HTTP-typed error.
\<close>

theorem not_ready_marker:
  assumes "fst (getClusterVersion c e w) = Inr None"
  shows "fst (Send c ep e w) = Some ErrWaitingForVersion
       \<and> fst (RecvReport c ep' e w) = Inl ErrWaitingForVersion
       \<and> fst (RecvSCACerts c ep'' e w) = Inl ErrWaitingForVersion
       \<and> \<not> IsErrorf ErrWaitingForVersion \<and> \<not> IsAuthorizationError ErrWaitingForVersion
       \<and> \<not> IsHttpError ErrWaitingForVersion"
  using assms
  by (cases "getClusterVersion c e w") (simp add: Send_def RecvReport_def RecvSCACerts_def)

text \<open>
  The theorem at a fresh Client whose identity source answers with a NotFound status
  error.
\<close>

theorem not_ready_marker_witness:
  "fst (Send (New 0 ''insights'') ''https://upload''
          (example_env (None, Some (ApiNotFound ''clusterversions version not found''))
             (Inl (Foreign ''unused''))) world0) = Some ErrWaitingForVersion
   \<and> fst (RecvReport (New 0 ''insights'') ''https://report/''
          (example_env (None, Some (ApiNotFound ''clusterversions version not found''))
             (Inl (Foreign ''unused''))) world0) = Inl ErrWaitingForVersion
   \<and> fst (RecvSCACerts (New 0 ''insights'') ''https://sca''
          (example_env (None, Some (ApiNotFound ''clusterversions version not found''))
             (Inl (Foreign ''unused''))) world0) = Inl ErrWaitingForVersion"
proof -
  have h: "fst (getClusterVersion (New 0 ''insights'')
             (example_env (None, Some (ApiNotFound ''clusterversions version not found''))
                (Inl (Foreign ''unused''))) world0) = Inr None"
    by (rule getClusterVersion_not_found) (simp_all add: New_def example_env_def)
  show ?thesis using not_ready_marker [OF h] by simp
qed

subsection \<open>C2: counter increments\<close>

text \<open>
  C2, as stated: every completed call of \<^verbatim>\<open>Send\<close> and of \<^verbatim>\<open>RecvReport\<close>
  increments its counter exactly once, with the status code as label, the success
  outcome included. On status 200 \<^verbatim>\<open>RecvReport\<close> hands the response to its caller
  at line 348 without an increment: the counter for label 200 is not raised by the
  call.
\<close>

theorem RecvReport_200_counter_counterexample:
  "\<not> (counterRequestRecvReport
         (snd (RecvReport (New 0 ''insights'') ''https://report/''
            (example_env (Some example_cv, None) (Inr (example_response 200 ''{}''))) world0))
         (''insights'', ''200'')
       = counterRequestRecvReport world0 (''insights'', ''200'') + 1)"
  by (simp add: RecvReport_def getClusterVersion_def New_def example_env_def Let_def
        prepareRequest_def RecvReport_status_def example_response_def world0_def)

text \<open>
  C2, amended. A call of \<^verbatim>\<open>Send\<close> that gets as far as the HTTP exchange increments
  \<^verbatim>\<open>counterRequestSend\<close> exactly once and changes no other label: at the label of
  the observed status code, the success outcome included, or at the label 0 when the
  transport fails. A call of \<^verbatim>\<open>RecvReport\<close> that gets as far as the exchange
  increments \<^verbatim>\<open>counterRequestRecvReport\<close> exactly once when the transport fails
  (label 0) or the status lies outside 200..299 (label of the status code), and leaves
  the counter as it was on status 200, where the caller records the outcome through
  \<^verbatim>\<open>IncrementRecvReportMetric\<close>. A call of either that returns before the exchange
  (identity lookup failed or not ready, request not prepared) increments nothing.
  Nothing is stated for \<^verbatim>\<open>RecvReport\<close> on a status in 201..299.
\<close>

theorem request_counters:
  "counterRequestSend (snd (snd (Send c ep e w))) =
     (if exchange_attempted c e w
      then Inc (counterRequestSend w) (metricsName c)
             (case Do_result e of Inl err \<Rightarrow> ''0'' | Inr resp \<Rightarrow> Itoa (StatusCode resp))
      else counterRequestSend w)
   \<and> counterRequestRecvReport (snd (RecvReport c ep' e w)) =
     (if exchange_attempted c e w
      then (case Do_result e of
              Inl err \<Rightarrow> Inc (counterRequestRecvReport w) (metricsName c) ''0''
            | Inr resp \<Rightarrow>
                if StatusCode resp < 200 \<or> 300 \<le> StatusCode resp
                then Inc (counterRequestRecvReport w) (metricsName c) (Itoa (StatusCode resp))
                else if StatusCode resp = 200 then counterRequestRecvReport w
                else counterRequestRecvReport (snd (RecvReport c ep' e w)))
      else counterRequestRecvReport w)"
proof -
  obtain r c1 w1 where g: "getClusterVersion c e w = (r, c1, w1)"
    by (cases "getClusterVersion c e w") auto
  have m: "metricsName c1 = metricsName c"
    using getClusterVersion_metricsName [of c e w] g by simp
  have k: "counterRequestSend w1 = counterRequestSend w"
          "counterRequestRecvReport w1 = counterRequestRecvReport w"
    using getClusterVersion_counters [of c e w] g by simp_all
  have s: "counterRequestSend (snd (snd (Send c ep e w))) =
     (if exchange_attempted c e w
      then Inc (counterRequestSend w) (metricsName c)
             (case Do_result e of Inl err \<Rightarrow> ''0'' | Inr resp \<Rightarrow> Itoa (StatusCode resp))
      else counterRequestSend w)"
    using g m k
    by (auto simp add: Send_def exchange_attempted_def prepareRequest_def Let_def
          split: sum.splits option.splits prod.splits)
  have rr: "counterRequestRecvReport (snd (RecvReport c ep' e w)) =
     (if exchange_attempted c e w
      then (case Do_result e of
              Inl err \<Rightarrow> Inc (counterRequestRecvReport w) (metricsName c) ''0''
            | Inr resp \<Rightarrow>
                if StatusCode resp < 200 \<or> 300 \<le> StatusCode resp
                then Inc (counterRequestRecvReport w) (metricsName c) (Itoa (StatusCode resp))
                else if StatusCode resp = 200 then counterRequestRecvReport w
                else counterRequestRecvReport (snd (RecvReport c ep' e w)))
      else counterRequestRecvReport w)"
    using g m k
    by (auto simp add: RecvReport_def exchange_attempted_def prepareRequest_def Let_def
          RecvReport_status_def IncrementRecvReportMetric_def readBody1024_eq
          split: sum.splits option.splits prod.splits)
  show ?thesis using s rr by (rule conjI)
qed

text \<open>
  The theorem on four calls that start from counters at zero: \<^verbatim>\<open>Send\<close> answered
  with status 200, \<^verbatim>\<open>Send\<close> with a transport failure, \<^verbatim>\<open>RecvReport\<close> answered
  with status 500 and with status 200.
\<close>

theorem request_counters_witness:
  "counterRequestSend
     (snd (snd (Send (New 0 ''insights'') ''https://upload''
        (example_env (Some example_cv, None) (Inr (example_response 200 ''ok''))) world0)))
     (''insights'', ''200'') = 1
   \<and> counterRequestSend
     (snd (snd (Send (New 0 ''insights'') ''https://upload''
        (example_env (Some example_cv, None) (Inl (Foreign ''dial tcp: timeout''))) world0)))
     (''insights'', ''0'') = 1
   \<and> counterRequestRecvReport
     (snd (RecvReport (New 0 ''insights'') ''https://report/''
        (example_env (Some example_cv, None) (Inr (example_response 500 ''oops''))) world0))
     (''insights'', ''500'') = 1
   \<and> counterRequestRecvReport
     (snd (RecvReport (New 0 ''insights'') ''https://report/''
        (example_env (Some example_cv, None) (Inr (example_response 200 ''{}''))) world0))
     (''insights'', ''200'') = 0"
proof -
  have s1: "counterRequestSend
     (snd (snd (Send (New 0 ''insights'') ''https://upload''
        (example_env (Some example_cv, None) (Inr (example_response 200 ''ok''))) world0)))
     = Inc (counterRequestSend world0) ''insights'' ''200''"
    using request_counters [of "New 0 ''insights''" "''https://upload''"
        "example_env (Some example_cv, None) (Inr (example_response 200 ''ok''))" world0]
    by (simp add: example_attempted example_env_Do)
       (simp add: New_def example_response_def Itoa_examples)
  have s2: "counterRequestSend
     (snd (snd (Send (New 0 ''insights'') ''https://upload''
        (example_env (Some example_cv, None) (Inl (Foreign ''dial tcp: timeout''))) world0)))
     = Inc (counterRequestSend world0) ''insights'' ''0''"
    using request_counters [of "New 0 ''insights''" "''https://upload''"
        "example_env (Some example_cv, None) (Inl (Foreign ''dial tcp: timeout''))" world0]
    by (simp add: example_attempted example_env_Do) (simp add: New_def)
  have r1: "counterRequestRecvReport
     (snd (RecvReport (New 0 ''insights'') ''https://report/''
        (example_env (Some example_cv, None) (Inr (example_response 500 ''oops''))) world0))
     = Inc (counterRequestRecvReport world0) ''insights'' ''500''"
    using request_counters [of "New 0 ''insights''" _
        "example_env (Some example_cv, None) (Inr (example_response 500 ''oops''))" world0
        "''https://report/''"]
    by (simp add: example_attempted example_env_Do)
       (simp add: New_def example_response_def Itoa_examples)
  have r2: "counterRequestRecvReport
     (snd (RecvReport (New 0 ''insights'') ''https://report/''
        (example_env (Some example_cv, None) (Inr (example_response 200 ''{}''))) world0))
     = counterRequestRecvReport world0"
    using request_counters [of "New 0 ''insights''" _
        "example_env (Some example_cv, None) (Inr (example_response 200 ''{}''))" world0
        "''https://report/''"]
    by (simp add: example_attempted example_env_Do) (simp add: example_response_def)
  show ?thesis unfolding s1 s2 r1 r2 by (simp add: Inc_def world0_def)
qed

subsection \<open>C3: memoization of the identity\<close>

text \<open>
  C3 says that an identity resolved in any of \<^verbatim>\<open>Send\<close>, \<^verbatim>\<open>RecvReport\<close> or
  \<^verbatim>\<open>RecvSCACerts\<close> is stored on the Client and that later calls do not query the
  identity source again. \<^verbatim>\<open>Send\<close> does so (lemma \<open>Send_memoizes\<close>). The code
  evaluated on a fresh Client whose identity source answers with an identity: two
  calls of \<^verbatim>\<open>RecvReport\<close> on that Client send two queries, and so do two calls of
  \<^verbatim>\<open>RecvSCACerts\<close>, because the value receiver stores the identity on a copy.
\<close>

theorem RecvReport_does_not_memoize:
  "identity_queries
     (snd (RecvReport (New 0 ''insights'') ''https://report/''
        (example_env (Some example_cv, None) (Inr (example_response 200 ''{}'')))
        (snd (RecvReport (New 0 ''insights'') ''https://report/''
           (example_env (Some example_cv, None) (Inr (example_response 200 ''{}''))) world0)))) = 2
   \<and> identity_queries
     (snd (RecvSCACerts (New 0 ''insights'') ''https://sca''
        (example_env (Some example_cv, None) (Inr (example_response 200 ''certs'')))
        (snd (RecvSCACerts (New 0 ''insights'') ''https://sca''
           (example_env (Some example_cv, None) (Inr (example_response 200 ''certs''))) world0)))) = 2"
  by (simp add: RecvReport_def RecvSCACerts_def getClusterVersion_def New_def example_env_def
        Let_def prepareRequest_def RecvReport_status_def example_response_def world0_def
        ReadAll_def)

subsection \<open>C4: status 404 is typed on RecvReport and generic on Send\<close>

text \<open>
  C4: when the exchange returns a response with status 404, \<^verbatim>\<open>RecvReport\<close> returns an
  \<^verbatim>\<open>HttpError\<close> with \<^verbatim>\<open>StatusCode\<close> 404, which \<^verbatim>\<open>IsHttpError\<close> recognises,
  while \<^verbatim>\<open>Send\<close> returns the generic unexpected-status error made by
  \<^verbatim>\<open>fmt.Errorf\<close>, which is not an \<^verbatim>\<open>HttpError\<close>.
\<close>

theorem status_404_asymmetry:
  assumes "fst (getClusterVersion c e w) = Inr (Some cv)"
      and "NewRequest_err e = None" and "Authorize_err e = None"
      and "Do_result e = Inr resp" and "StatusCode resp = 404"
  shows "fst (RecvReport c ep e w) =
           Inl (HttpError (Errorf (''not found: '' @ RequestURL resp @ '' (request=''
                  @ RequestID resp @ ''): '' @ take 1024 (unread (Body resp)))) 404)
       \<and> fst (Send c ep' e w) =
           Some (Errorf (''gateway server reported unexpected error code: 404 (request=''
                  @ RequestID resp @ ''): '' @ take 1024 (unread (Body resp))))
       \<and> (case fst (RecvReport c ep e w) of Inl err \<Rightarrow> IsHttpError err | Inr r \<Rightarrow> False)
       \<and> (case fst (Send c ep' e w) of
            Some err \<Rightarrow> IsErrorf err \<and> \<not> IsHttpError err
          | None \<Rightarrow> False)"
proof -
  obtain c1 w1 where g: "getClusterVersion c e w = (Inr (Some cv), c1, w1)"
    using assms(1) by (cases "getClusterVersion c e w") auto
  have r: "fst (RecvReport c ep e w) =
           Inl (HttpError (Errorf (''not found: '' @ RequestURL resp @ '' (request=''
                  @ RequestID resp @ ''): '' @ take 1024 (unread (Body resp)))) 404)"
    using assms(2-5) g
    by (simp add: RecvReport_def prepareRequest_def RecvReport_status_def readBody1024_eq Let_def)
  have s: "fst (Send c ep' e w) =
           Some (Errorf (''gateway server reported unexpected error code: 404 (request=''
                  @ RequestID resp @ ''): '' @ take 1024 (unread (Body resp))))"
    using assms(2-5) g
    by (simp add: Send_def prepareRequest_def Send_status_def responseBody_eq Let_def
          Itoa_examples)
  show ?thesis by (simp add: r s)
qed

theorem status_404_asymmetry_witness:
  "fst (RecvReport (New 0 ''insights'') ''https://report/''
          (example_env (Some example_cv, None) (Inr (example_response 404 ''no report''))) world0)
     = Inl (HttpError (Errorf
          ''not found: https://console.example/api (request=req-7): no report'') 404)
   \<and> fst (Send (New 0 ''insights'') ''https://upload''
          (example_env (Some example_cv, None) (Inr (example_response 404 ''no report''))) world0)
     = Some (Errorf
          ''gateway server reported unexpected error code: 404 (request=req-7): no report'')"
  using status_404_asymmetry [OF example_identity, of "Inr (example_response 404 ''no report'')"
      "example_response 404 ''no report''" "''https://report/''" "''https://upload''"]
  by (simp add: example_env_def example_response_def)

subsection \<open>C5: status 401 and 403 are authorization errors\<close>

text \<open>
  C5: when the exchange returns a response with status 401 or 403, both \<^verbatim>\<open>Send\<close>
  and \<^verbatim>\<open>RecvReport\<close> return an \<^verbatim>\<open>authorizer.Error\<close>, which is neither the
  generic error made by \<^verbatim>\<open>fmt.Errorf\<close> nor an \<^verbatim>\<open>HttpError\<close>.
\<close>

theorem status_401_403_authorization:
  assumes "fst (getClusterVersion c e w) = Inr (Some cv)"
      and "NewRequest_err e = None" and "Authorize_err e = None"
      and "Do_result e = Inr resp" and "StatusCode resp = 401 \<or> StatusCode resp = 403"
  shows "(case fst (Send c ep e w) of
            Some err \<Rightarrow> IsAuthorizationError err \<and> \<not> IsErrorf err \<and> \<not> IsHttpError err
          | None \<Rightarrow> False)
       \<and> (case fst (RecvReport c ep' e w) of
            Inl err \<Rightarrow> IsAuthorizationError err \<and> \<not> IsErrorf err \<and> \<not> IsHttpError err
          | Inr r \<Rightarrow> False)"
proof -
  obtain c1 w1 where g: "getClusterVersion c e w = (Inr (Some cv), c1, w1)"
    using assms(1) by (cases "getClusterVersion c e w") auto
  have s: "\<exists>m. fst (Send c ep e w) = Some (AuthorizerError (Errorf m))"
    using assms(2-5) g
    by (auto simp add: Send_def prepareRequest_def Send_status_def responseBody_eq Let_def)
  have r: "\<exists>m. fst (RecvReport c ep' e w) = Inl (AuthorizerError (Errorf m))"
    using assms(2-5) g
    by (auto simp add: RecvReport_def prepareRequest_def RecvReport_status_def Let_def)
  from s r show ?thesis by auto
qed

theorem status_401_403_authorization_witness:
  "(case fst (Send (New 0 ''insights'') ''https://upload''
          (example_env (Some example_cv, None) (Inr (example_response 401 ''denied''))) world0) of
      Some err \<Rightarrow> IsAuthorizationError err | None \<Rightarrow> False)
   \<and> (case fst (RecvReport (New 0 ''insights'') ''https://report/''
          (example_env (Some example_cv, None) (Inr (example_response 403 ''denied''))) world0) of
      Inl err \<Rightarrow> IsAuthorizationError err | Inr r \<Rightarrow> False)"
  using status_401_403_authorization [OF example_identity,
      of "Inr (example_response 401 ''denied'')" "example_response 401 ''denied''"
         "''https://upload''" "''https://report/''"]
    status_401_403_authorization [OF example_identity,
      of "Inr (example_response 403 ''denied'')" "example_response 403 ''denied''"
         "''https://upload''" "''https://report/''"]
  by (simp add: example_env_def example_response_def split: option.splits sum.splits)

subsection \<open>C6: the primary part is the content, cut at the ceiling\<close>

text \<open>
  C6: for every Source uploaded by \<^verbatim>\<open>Send\<close> with a Client whose byte ceiling is C,
  the body of the first part of the upload is the content itself when the content is
  at most C bytes long, and is the first C bytes of the content when it is longer; in
  that case the excess is dropped without an error: the encoder closes the pipe
  cleanly after the closing boundary and reports C bytes copied.
\<close>

theorem primary_part_capped:
  "(case uploaded_parts (fst (snd (Send_body c source))) of
      [] \<Rightarrow> False
    | p # ps \<Rightarrow>
        part_header p = file_header (Type source)
        \<and> part_body p = (if int (length (pending (Contents source))) \<le> maxBytes c
                           then pending (Contents source)
                           else take (nat (maxBytes c)) (pending (Contents source))))
   \<and> (maxBytes c < int (length (pending (Contents source))) \<longrightarrow>
        pipe (fst (snd (Send_body c source))) = Closed None
        \<and> finished (fst (snd (Send_body c source)))
        \<and> fst (Send_body c source) = Some (nat (maxBytes c)))"
  by (auto simp add: Send_body_eq Let_def uploaded_parts_def)

text \<open>
  The theorem on the 5-byte content \<^verbatim>\<open>hello\<close>: whole under the ceiling 100, cut
  to \<^verbatim>\<open>hel\<close> under the ceiling 3, where the upload still ends without an error.
\<close>

theorem primary_part_capped_witness:
  "(case uploaded_parts (fst (snd (Send_body (New 100 ''insights'')
            (example_source example_time ''hello'' None)))) of
      [] \<Rightarrow> False | p # ps \<Rightarrow> part_body p = ''hello'')
   \<and> (case uploaded_parts (fst (snd (Send_body (New 3 ''insights'')
            (example_source example_time ''hello'' None)))) of
      [] \<Rightarrow> False | p # ps \<Rightarrow> part_body p = ''hel'')
   \<and> pipe (fst (snd (Send_body (New 3 ''insights'')
            (example_source example_time ''hello'' None)))) = Closed None
   \<and> fst (Send_body (New 3 ''insights'') (example_source example_time ''hello'' None)) = Some 3"
proof -
  have m: "maxBytes (New 100 ''insights'') = 100" "maxBytes (New 3 ''insights'') = 3"
    by (simp_all add: New_def)
  have p: "pending (Contents (example_source example_time ''hello'' None)) = ''hello''"
    by (simp add: example_source_def)
  show ?thesis
    using primary_part_capped [where c = "New 100 ''insights''"
        and source = "example_source example_time ''hello'' None"]
      primary_part_capped [where c = "New 3 ''insights''"
        and source = "example_source example_time ''hello'' None"]
    unfolding m p by (auto split: list.splits)
qed

subsection \<open>C7: the metadata part\<close>

text \<open>
  C7: for every Source and every creation time, the zero time included, the metadata
  part that the encoder writes after the primary part (field \<^verbatim>\<open>metadata\<close>, file
  name \<^verbatim>\<open>metadata.json\<close>) is exactly the JSON object
  \<^verbatim>\<open>{"custom_metadata":{"gathering_time":"<t>"}}\<close> with \<open><t>\<close> the creation time
  formatted per RFC3339. The part is written on every upload but the one whose content
  stream fails with a read error before the ceiling is reached.
\<close>

theorem metadata_part_exact:
  "drop 1 (uploaded_parts (fst (snd (Send_body c source)))) =
     (if int (length (pending (Contents source))) < maxBytes c
         \<and> read_end (Contents source) \<noteq> None
      then []
      else [\<lparr>part_header = metadata_header,
             part_body = metadata_json (CreationTime source)\<rparr>])"
  by (simp add: Send_body_eq Let_def uploaded_parts_def)

text \<open>
  The theorem on the zero time and on 2023-01-01T00:00:00Z.
\<close>

theorem metadata_part_exact_witness:
  \<open>drop 1 (uploaded_parts (fst (snd (Send_body (New 100 ''insights'')
       (example_source zero_time ''hello'' None)))))
     = [\<lparr>part_header = metadata_header,
         part_body = ''{"custom_metadata":{"gathering_time":"0001-01-01T00:00:00Z"}}''\<rparr>]
   \<and> drop 1 (uploaded_parts (fst (snd (Send_body (New 100 ''insights'')
       (example_source example_time ''hello'' None)))))
     = [\<lparr>part_header = metadata_header,
         part_body = ''{"custom_metadata":{"gathering_time":"2023-01-01T00:00:00Z"}}''\<rparr>]\<close>
proof -
  have r: "read_end (Contents (example_source t ''hello'' None)) = None" for t
    by (simp add: example_source_def read_end_def)
  have t: "CreationTime (example_source t ''hello'' None) = t" for t
    by (simp add: example_source_def)
  show ?thesis
    using metadata_part_exact [where c = "New 100 ''insights''"
        and source = "example_source zero_time ''hello'' None"]
      metadata_part_exact [where c = "New 100 ''insights''"
        and source = "example_source example_time ''hello'' None"]
    unfolding r t by (simp add: metadata_json_def Format_examples)
qed

subsection \<open>C8: response-body text in errors\<close>

text \<open>
  C8 says that the response-body text embedded in an error is at most 1024 bytes
  long. Every path truncates what it read to 1024 bytes (lemmas
  \<open>responseBody_length\<close> and \<open>readBody1024_length\<close>), and \<^verbatim>\<open>Send\<close> and
  \<^verbatim>\<open>RecvReport\<close> append that text to their message as it is. \<^verbatim>\<open>ocmErrorMessage\<close>
  passes the message that holds the truncated body to \<^verbatim>\<open>fmt.Errorf\<close> as the format
  string. The code evaluated on \<^verbatim>\<open>RecvSCACerts\<close> answered with status 500 and a
  body of 200 bytes, one hundred times \<^verbatim>\<open>%d\<close>: the text that stands for the body in
  the returned error is 1200 bytes long.
\<close>

theorem RecvSCACerts_error_text_expands:
  "fst (RecvSCACerts (New 0 ''insights'') ''https://sca''
          (example_env (Some example_cv, None)
             (Inr (example_response 500 (concat (replicate 100 ''%d''))))) world0)
     = Inl (HttpError (Errorf (''OCM API https://console.example/api returned HTTP 500: ''
              @ concat (replicate 100 ''%!d(MISSING)''))) 500)
   \<and> length (concat (replicate 100 ''%!d(MISSING)'')) = 1200"
  by code_simp

subsection \<open>C9: draining the response body\<close>

text \<open>
  C9 says that on every outcome but status 200 of \<^verbatim>\<open>RecvReport\<close> the response body
  is read to its end before the operation returns. \<^verbatim>\<open>Send\<close> does so on every
  response (lemma \<open>Send_drains\<close>). The code evaluated on \<^verbatim>\<open>RecvReport\<close> answered
  with status 401 and the body \<^verbatim>\<open>access denied\<close>: the call returns with the whole
  body unread, the end of the stream not reached and the body not closed.
\<close>

theorem RecvReport_401_body_unread:
  "last_response
     (snd (RecvReport (New 0 ''insights'') ''https://report/''
        (example_env (Some example_cv, None) (Inr (example_response 401 ''access denied'')))
        world0))
     = Some \<lparr>StatusCode = 401, RequestID = ''req-7'',
             RequestURL = ''https://console.example/api'',
             Body = \<lparr>unread = ''access denied'', at_eof = False, closed = False\<rparr>\<rparr>"
  by (simp add: RecvReport_def getClusterVersion_def New_def example_env_def Let_def
        prepareRequest_def RecvReport_status_def example_response_def world0_def
        IncrementRecvReportMetric_def)

subsection \<open>C10: the byte ceiling stored by New\<close>

text \<open>
  C10, as stated: every Client returned by New holds a positive byte ceiling. New
  replaces only the value 0 by the default (line 93 tests \<^verbatim>\<open>maxBytes == 0\<close>), so a
  negative ceiling is stored as it is given: New with maxBytes = -1 holds the ceiling -1.
\<close>

theorem New_negative_ceiling_counterexample:
  "\<not> (0 < maxBytes (New (- 1) ''insights''))"
  by (simp add: New_def)

text \<open>
  C10, amended: New stores the default 10 MiB (10485760 bytes) when maxBytes is 0 and
  stores maxBytes unchanged otherwise; hence the stored ceiling is never 0, and it is
  positive exactly when the given maxBytes is not negative.
\<close>

theorem New_ceiling:
  "maxBytes (New mb n) = (if mb = 0 then 10485760 else mb)
   \<and> maxBytes (New mb n) \<noteq> 0
   \<and> (0 < maxBytes (New mb n)) = (0 \<le> mb)"
  by (auto simp: New_def)

end
